theory Spec2Isabelle
  imports Main "HOL-Library.AList"
begin

section \<open>Values, dictionaries, exceptions\<close>

text \<open>
  The module \<open>src/services/auth.py\<close> builds Python dictionaries of claims, hands them to
  the JWT library and reads the dictionaries the library gives back. A claim value is a
  JSON value or, before encoding, a \<open>datetime\<close> object (a naive UTC instant, counted here
  in microseconds since the epoch, the resolution of Python's \<open>datetime\<close>).
\<close>

datatype jval = JNull | JBool bool | JInt int | JStr string | JDatetime int

text \<open>
  A Python \<open>dict\<close> keeps its keys in insertion order: an association list. Assigning to a
  key that is present replaces the value in place, assigning to a new key appends
  (\<open>AList.update\<close> does exactly that).
\<close>

type_synonym dict = "(string \<times> jval) list"

datatype exn =
    HTTPException (status_code: nat) (detail: string) (headers: "(string \<times> string) list option")
  | JWTError string
  | KeyError string
  | AttributeError
  | OverflowError
  | TypeError
  | ValueError

definition HTTP_401_UNAUTHORIZED :: nat where
  "HTTP_401_UNAUTHORIZED = 401"

definition HTTP_422_UNPROCESSABLE_ENTITY :: nat where
  "HTTP_422_UNPROCESSABLE_ENTITY = 422"

text \<open>\<open>d[k]\<close>: the value, or \<open>KeyError\<close> when the key is absent.\<close>

definition dict_getitem :: "dict \<Rightarrow> string \<Rightarrow> exn + jval" where
  "dict_getitem d k = (case map_of d k of None \<Rightarrow> Inl (KeyError k) | Some v \<Rightarrow> Inr v)"

text \<open>\<open>d.update(other)\<close>: every item of \<open>other\<close> is assigned, in order.\<close>

definition dict_update :: "dict \<Rightarrow> dict \<Rightarrow> dict" where
  "dict_update d other = fold (\<lambda>kv. AList.update (fst kv) (snd kv)) other d"

section \<open>The world: wall clock, object store, standard output\<close>

text \<open>
  \<open>datetime.utcnow()\<close> reads the wall clock; every call is a new reading. \<open>clock w k\<close> is
  what the \<open>k\<close>-th reading returns and \<open>reads w\<close> counts the readings made so far.
  Dictionaries passed by the caller are objects: \<open>heap w a\<close> is the dictionary at address
  \<open>a\<close> (\<open>None\<close>: no dictionary lives there), \<open>next_addr w\<close> the address the next new
  object gets. \<open>stdout w\<close> collects what \<open>print\<close> writes.
\<close>

record world =
  clock :: "nat \<Rightarrow> int"
  reads :: nat
  heap :: "nat \<Rightarrow> dict option"
  next_addr :: nat
  stdout :: "string list"

definition utcnow :: "world \<Rightarrow> int \<times> world" where
  "utcnow w = (clock w (reads w), w\<lparr>reads := Suc (reads w)\<rparr>)"

text \<open>
  \<open>timedelta(days=.., seconds=.., minutes=..)\<close> in microseconds, for whole numbers of
  seconds. \<open>datetime + timedelta\<close> raises \<open>OverflowError\<close> outside the years 1 to 9999.
\<close>

definition timedelta :: "int \<Rightarrow> int \<Rightarrow> int \<Rightarrow> int" where
  "timedelta days seconds minutes = (days * 86400 + seconds + minutes * 60) * 1000000"

definition datetime_min :: int where
  "datetime_min = - 62135596800000000"

definition datetime_max :: int where
  "datetime_max = 253402300799999999"

definition datetime_add :: "int \<Rightarrow> int \<Rightarrow> exn + int" where
  "datetime_add t delta =
     (if datetime_min \<le> t + delta \<and> t + delta \<le> datetime_max then Inr (t + delta)
      else Inl OverflowError)"

text \<open>\<open>data.copy()\<close>: a new dictionary object with the same items.\<close>

definition dict_copy :: "nat \<Rightarrow> world \<Rightarrow> (exn + nat) \<times> world" where
  "dict_copy a w =
     (case heap w a of
        None \<Rightarrow> (Inl AttributeError, w)
      | Some d \<Rightarrow>
          (Inr (next_addr w),
           w\<lparr>heap := (heap w)(next_addr w \<mapsto> d), next_addr := Suc (next_addr w)\<rparr>))"

text \<open>\<open>obj.update(other)\<close> on the dictionary object at address \<open>a\<close>: mutation in place.\<close>

definition dict_update_at :: "nat \<Rightarrow> dict \<Rightarrow> world \<Rightarrow> (exn + unit) \<times> world" where
  "dict_update_at a other w =
     (case heap w a of
        None \<Rightarrow> (Inl AttributeError, w)
      | Some d \<Rightarrow> (Inr (), w\<lparr>heap := (heap w)(a \<mapsto> dict_update d other)\<rparr>))"

section \<open>The JWT library, as the module uses it\<close>

text \<open>
  The module signs and verifies with an external library (\<open>jose.jwt\<close>), which is not part
  of the repository. Its cryptography is modelled symbolically: a token string is either
  the serialisation \<open>JWS key alg claims\<close> of a claims dictionary signed with \<open>key\<close> under
  algorithm \<open>alg\<close>, or some other string (\<open>Opaque\<close>). Verification under a key succeeds
  exactly on a token signed with that key and an accepted algorithm.
\<close>

datatype token = JWS (jws_key: string) (jws_alg: string) (jws_claims: dict) | Opaque string

text \<open>Seconds since the epoch of a datetime (\<open>timegm(dt.utctimetuple())\<close>): microseconds are dropped.\<close>

definition timegm :: "int \<Rightarrow> int" where
  "timegm t = t div 1000000"

definition is_datetime :: "jval \<Rightarrow> bool" where
  "is_datetime v = (case v of JDatetime t \<Rightarrow> True | _ \<Rightarrow> False)"

definition convert_time_claim :: "string \<Rightarrow> dict \<Rightarrow> dict" where
  "convert_time_claim k c =
     (case map_of c k of
        Some (JDatetime t) \<Rightarrow> AList.update k (JInt (timegm t)) c
      | _ \<Rightarrow> c)"

text \<open>
  \<open>jwt.encode(claims, key, algorithm)\<close>: a datetime under \<open>exp\<close>, \<open>iat\<close> or \<open>nbf\<close> is
  replaced, in the dictionary it was given, by its whole seconds since the epoch; the
  claims are then serialised as JSON (a datetime left anywhere else is not serialisable:
  \<open>TypeError\<close>) and signed.
\<close>

definition jwt_encode :: "nat \<Rightarrow> string \<Rightarrow> string \<Rightarrow> world \<Rightarrow> (exn + token) \<times> world" where
  "jwt_encode claims key algorithm w =
     (case heap w claims of
        None \<Rightarrow> (Inl AttributeError, w)
      | Some c \<Rightarrow>
          (let c' = fold convert_time_claim [''exp'', ''iat'', ''nbf''] c;
               w' = w\<lparr>heap := (heap w)(claims \<mapsto> c')\<rparr>
           in if list_ex (\<lambda>kv. is_datetime (snd kv)) c' then (Inl TypeError, w')
              else (Inr (JWS key algorithm c'), w')))"

text \<open>
  Python's \<open>int(v)\<close> on a claim value, as the library's validators call it: a number is
  taken as it is, a boolean is 0 or 1, a string is parsed (\<open>ValueError\<close> when it does not
  spell a number), and \<open>None\<close> raises \<open>TypeError\<close>. Of the spellings Python accepts only
  decimal digits with an optional sign are read here; blanks around the number and
  underscores between digits are left out.
\<close>

definition is_digit :: "char \<Rightarrow> bool" where
  "is_digit c = (c \<in> set ''0123456789'')"

definition digit_value :: "char \<Rightarrow> int" where
  "digit_value c = int (of_char c) - 48"

fun digits_to_int :: "string \<Rightarrow> int \<Rightarrow> int option" where
  "digits_to_int [] acc = Some acc"
| "digits_to_int (c # cs) acc =
     (if is_digit c then digits_to_int cs (acc * 10 + digit_value c) else None)"

definition int_of_str :: "string \<Rightarrow> int option" where
  "int_of_str s =
     (case s of
        [] \<Rightarrow> None
      | c # cs \<Rightarrow>
          if c = CHR ''-'' then
            (case cs of [] \<Rightarrow> None | d # ds \<Rightarrow> map_option uminus (digits_to_int cs 0))
          else if c = CHR ''+'' then
            (case cs of [] \<Rightarrow> None | d # ds \<Rightarrow> digits_to_int cs 0)
          else digits_to_int s 0)"

definition py_int :: "jval \<Rightarrow> exn + int" where
  "py_int v =
     (case v of
        JInt n \<Rightarrow> Inr n
      | JBool b \<Rightarrow> Inr (if b then 1 else 0)
      | JStr s \<Rightarrow> (case int_of_str s of None \<Rightarrow> Inl ValueError | Some n \<Rightarrow> Inr n)
      | JNull \<Rightarrow> Inl TypeError
      | JDatetime t \<Rightarrow> Inl TypeError)"

text \<open>
  The library's checks of the registered claims, in the order \<open>jwt.decode\<close> runs them with
  the options the module leaves at their defaults and with no audience, issuer, subject or
  access token given. Each check passes when its claim is absent.
  \<^item> \<open>iat\<close>, \<open>nbf\<close>, \<open>exp\<close> must convert with \<open>int\<close>; only the \<open>ValueError\<close> of the
    conversion is turned into a \<open>JWTError\<close>, its \<open>TypeError\<close> escapes as it is. A token
    whose \<open>nbf\<close> lies after the current second, or whose \<open>exp\<close> lies before it, is
    refused; each of the two comparisons reads the clock.
  \<^item> \<open>aud\<close>: no audience is given, so a token that has the claim is refused.
  \<^item> \<open>sub\<close> and \<open>jti\<close> must be strings.
  \<^item> \<open>at_hash\<close>: no access token is given, so a token that has the claim is refused.
\<close>

definition validate_iat :: "dict \<Rightarrow> exn + unit" where
  "validate_iat claims =
     (case map_of claims ''iat'' of
        None \<Rightarrow> Inr ()
      | Some v \<Rightarrow>
          (case py_int v of
             Inl ValueError \<Rightarrow> Inl (JWTError ''Issued At claim (iat) must be an integer.'')
           | Inl e \<Rightarrow> Inl e
           | Inr n \<Rightarrow> Inr ()))"

definition validate_nbf :: "dict \<Rightarrow> world \<Rightarrow> (exn + unit) \<times> world" where
  "validate_nbf claims w =
     (case map_of claims ''nbf'' of
        None \<Rightarrow> (Inr (), w)
      | Some v \<Rightarrow>
          (case py_int v of
             Inl ValueError \<Rightarrow> (Inl (JWTError ''Not Before claim (nbf) must be an integer.''), w)
           | Inl e \<Rightarrow> (Inl e, w)
           | Inr nbf \<Rightarrow>
               (case utcnow w of
                  (now, w') \<Rightarrow>
                    if nbf > timegm now then
                      (Inl (JWTError ''The token is not yet valid (nbf)''), w')
                    else (Inr (), w'))))"

definition validate_exp :: "dict \<Rightarrow> world \<Rightarrow> (exn + unit) \<times> world" where
  "validate_exp claims w =
     (case map_of claims ''exp'' of
        None \<Rightarrow> (Inr (), w)
      | Some v \<Rightarrow>
          (case py_int v of
             Inl ValueError \<Rightarrow>
               (Inl (JWTError ''Expiration Time claim (exp) must be an integer.''), w)
           | Inl e \<Rightarrow> (Inl e, w)
           | Inr exp \<Rightarrow>
               (case utcnow w of
                  (now, w') \<Rightarrow>
                    if exp < timegm now then (Inl (JWTError ''Signature has expired.''), w')
                    else (Inr (), w'))))"

definition validate_aud :: "dict \<Rightarrow> exn + unit" where
  "validate_aud claims =
     (case map_of claims ''aud'' of
        None \<Rightarrow> Inr ()
      | Some (JStr s) \<Rightarrow> Inl (JWTError ''Invalid audience'')
      | Some _ \<Rightarrow> Inl (JWTError ''Invalid claim format in token''))"

definition validate_sub :: "dict \<Rightarrow> exn + unit" where
  "validate_sub claims =
     (case map_of claims ''sub'' of
        None \<Rightarrow> Inr ()
      | Some (JStr s) \<Rightarrow> Inr ()
      | Some _ \<Rightarrow> Inl (JWTError ''Subject must be a string.''))"

definition validate_jti :: "dict \<Rightarrow> exn + unit" where
  "validate_jti claims =
     (case map_of claims ''jti'' of
        None \<Rightarrow> Inr ()
      | Some (JStr s) \<Rightarrow> Inr ()
      | Some _ \<Rightarrow> Inl (JWTError ''JWT ID must be a string.''))"

definition validate_at_hash :: "dict \<Rightarrow> exn + unit" where
  "validate_at_hash claims =
     (case map_of claims ''at_hash'' of
        None \<Rightarrow> Inr ()
      | Some v \<Rightarrow>
          Inl (JWTError ''No access_token provided to compare against at_hash claim.''))"

definition validate_claims :: "dict \<Rightarrow> world \<Rightarrow> (exn + unit) \<times> world" where
  "validate_claims claims w =
     (case validate_iat claims of
        Inl e \<Rightarrow> (Inl e, w)
      | Inr u \<Rightarrow>
          (case validate_nbf claims w of
             (Inl e, w1) \<Rightarrow> (Inl e, w1)
           | (Inr u, w1) \<Rightarrow>
               (case validate_exp claims w1 of
                  (Inl e, w2) \<Rightarrow> (Inl e, w2)
                | (Inr u, w2) \<Rightarrow>
                    (case validate_aud claims of
                       Inl e \<Rightarrow> (Inl e, w2)
                     | Inr u \<Rightarrow>
                         (case validate_sub claims of
                            Inl e \<Rightarrow> (Inl e, w2)
                          | Inr u \<Rightarrow>
                              (case validate_jti claims of
                                 Inl e \<Rightarrow> (Inl e, w2)
                               | Inr u \<Rightarrow>
                                   (case validate_at_hash claims of
                                      Inl e \<Rightarrow> (Inl e, w2)
                                    | Inr u \<Rightarrow> (Inr (), w2))))))))"

text \<open>
  \<open>jwt.decode(token, key, algorithms=[..])\<close>: the signature is verified, then the claims
  are checked. A refusal is a \<open>JWTError\<close> carrying the library's own message (its
  subclasses \<open>ExpiredSignatureError\<close> and \<open>JWTClaimsError\<close> are caught as \<open>JWTError\<close> too);
  the one other exception is the \<open>TypeError\<close> of a time claim that is null. The claims
  come back as a new dictionary, which the module only reads, so it is passed by value.
\<close>

definition jwt_decode :: "token \<Rightarrow> string \<Rightarrow> string list \<Rightarrow> world \<Rightarrow> (exn + dict) \<times> world" where
  "jwt_decode tok key algorithms w =
     (case tok of
        Opaque s \<Rightarrow> (Inl (JWTError ''Not enough segments''), w)
      | JWS k a claims \<Rightarrow>
          if a \<in> set algorithms \<and> k = key then
            (case validate_claims claims w of
               (Inl e, w') \<Rightarrow> (Inl e, w')
             | (Inr u, w') \<Rightarrow> (Inr claims, w'))
          else (Inl (JWTError ''Signature verification failed.''), w))"

text \<open>
  \<open>try: body except JWTError as e: handler\<close>: only a \<open>JWTError\<close> raised by the body is
  handled; any other exception of the body, and its result, pass through.
\<close>

definition except_JWTError ::
  "(exn + 'a) \<times> world \<Rightarrow> (string \<Rightarrow> world \<Rightarrow> (exn + 'a) \<times> world) \<Rightarrow> (exn + 'a) \<times> world" where
  "except_JWTError r handler =
     (case r of
        (Inl (JWTError msg), w) \<Rightarrow> handler msg w
      | _ \<Rightarrow> r)"

section \<open>The user repository\<close>

datatype user = User (user_email: string)

text \<open>
  Modelled from the spec: \<open>src.repository.users.get_user_by_email\<close> is not among the
  sources; the spec gives the collaborator as
  \<open>find_user_by_email(email) -> User | not-found\<close>. The database is what that lookup
  answers for each subject value.
\<close>

type_synonym db = "jval \<Rightarrow> user option"

definition get_user_by_email :: "jval \<Rightarrow> db \<Rightarrow> user option" where
  "get_user_by_email email d = d email"

section \<open>class Auth\<close>

definition SECRET_KEY :: string where
  "SECRET_KEY = ''e26cd3c889b41f4ffc33b2306ae18a87eba234f283ffa7095ee18e8d9c6ed2f6''"

definition ALGORITHM :: string where
  "ALGORITHM = ''HS256''"

text \<open>
  The three issuers. \<open>data\<close> is the address of the caller's dictionary; \<open>expires_delta\<close>
  is a number of seconds (whole seconds here; the fractions a Python \<open>float\<close> can carry
  are left out). \<open>if expires_delta:\<close> is Python truthiness: \<open>None\<close> and \<open>0\<close> both take
  the default branch. The clock is read once for \<open>expire\<close> and once more for \<open>iat\<close>.
  \<open>verify_password\<close> and \<open>get_password_hash\<close> only delegate to the password-hashing
  library and are not modelled.
\<close>

definition create_access_token :: "nat \<Rightarrow> int option \<Rightarrow> world \<Rightarrow> (exn + token) \<times> world" where
  "create_access_token data expires_delta w =
     (case dict_copy data w of
        (Inl e, w1) \<Rightarrow> (Inl e, w1)
      | (Inr to_encode, w1) \<Rightarrow>
          (case utcnow w1 of
             (now1, w2) \<Rightarrow>
               (case (case expires_delta of
                        Some s \<Rightarrow>
                          if s \<noteq> 0 then datetime_add now1 (timedelta 0 s 0)
                          else datetime_add now1 (timedelta 0 0 15)
                      | None \<Rightarrow> datetime_add now1 (timedelta 0 0 15)) of
                  Inl e \<Rightarrow> (Inl e, w2)
                | Inr expire \<Rightarrow>
                    (case utcnow w2 of
                       (now2, w3) \<Rightarrow>
                         (case dict_update_at to_encode
                                 [(''iat'', JDatetime now2), (''exp'', JDatetime expire),
                                  (''scope'', JStr ''access_token'')] w3 of
                            (Inl e, w4) \<Rightarrow> (Inl e, w4)
                          | (Inr u, w4) \<Rightarrow> jwt_encode to_encode SECRET_KEY ALGORITHM w4)))))"

definition create_refresh_token :: "nat \<Rightarrow> int option \<Rightarrow> world \<Rightarrow> (exn + token) \<times> world" where
  "create_refresh_token data expires_delta w =
     (case dict_copy data w of
        (Inl e, w1) \<Rightarrow> (Inl e, w1)
      | (Inr to_encode, w1) \<Rightarrow>
          (case utcnow w1 of
             (now1, w2) \<Rightarrow>
               (case (case expires_delta of
                        Some s \<Rightarrow>
                          if s \<noteq> 0 then datetime_add now1 (timedelta 0 s 0)
                          else datetime_add now1 (timedelta 7 0 0)
                      | None \<Rightarrow> datetime_add now1 (timedelta 7 0 0)) of
                  Inl e \<Rightarrow> (Inl e, w2)
                | Inr expire \<Rightarrow>
                    (case utcnow w2 of
                       (now2, w3) \<Rightarrow>
                         (case dict_update_at to_encode
                                 [(''iat'', JDatetime now2), (''exp'', JDatetime expire),
                                  (''scope'', JStr ''refresh_token'')] w3 of
                            (Inl e, w4) \<Rightarrow> (Inl e, w4)
                          | (Inr u, w4) \<Rightarrow> jwt_encode to_encode SECRET_KEY ALGORITHM w4)))))"

definition create_email_token :: "nat \<Rightarrow> world \<Rightarrow> (exn + token) \<times> world" where
  "create_email_token data w =
     (case dict_copy data w of
        (Inl e, w1) \<Rightarrow> (Inl e, w1)
      | (Inr to_encode, w1) \<Rightarrow>
          (case utcnow w1 of
             (now1, w2) \<Rightarrow>
               (case datetime_add now1 (timedelta 7 0 0) of
                  Inl e \<Rightarrow> (Inl e, w2)
                | Inr expire \<Rightarrow>
                    (case utcnow w2 of
                       (now2, w3) \<Rightarrow>
                         (case dict_update_at to_encode
                                 [(''iat'', JDatetime now2), (''exp'', JDatetime expire)] w3 of
                            (Inl e, w4) \<Rightarrow> (Inl e, w4)
                          | (Inr u, w4) \<Rightarrow> jwt_encode to_encode SECRET_KEY ALGORITHM w4)))))"

text \<open>
  The three readers. A lookup \<open>payload['scope']\<close> or \<open>payload['sub']\<close> of an absent key
  raises \<open>KeyError\<close> inside the \<open>try\<close>; the \<open>except JWTError\<close> clause does not handle it.
\<close>

definition get_email_form_refresh_token :: "token \<Rightarrow> world \<Rightarrow> (exn + jval) \<times> world" where
  "get_email_form_refresh_token refresh_token w =
     except_JWTError
       (case jwt_decode refresh_token SECRET_KEY [ALGORITHM] w of
          (Inl e, w1) \<Rightarrow> (Inl e, w1)
        | (Inr payload, w1) \<Rightarrow>
            (case dict_getitem payload ''scope'' of
               Inl e \<Rightarrow> (Inl e, w1)
             | Inr scope \<Rightarrow>
                 if scope = JStr ''refresh_token'' then
                   (case dict_getitem payload ''sub'' of
                      Inl e \<Rightarrow> (Inl e, w1)
                    | Inr email \<Rightarrow> (Inr email, w1))
                 else (Inl (HTTPException HTTP_401_UNAUTHORIZED ''Invalid scope for token'' None), w1)))
       (\<lambda>msg w1.
          (Inl (HTTPException HTTP_401_UNAUTHORIZED ''Could not validate credentials'' None), w1))"

definition credentials_exception :: exn where
  "credentials_exception =
     HTTPException HTTP_401_UNAUTHORIZED ''Could not validate credentials''
       (Some [(''WWW-Authenticate'', ''Bearer'')])"

definition get_current_user :: "token \<Rightarrow> db \<Rightarrow> world \<Rightarrow> (exn + user) \<times> world" where
  "get_current_user tok d w =
     (case except_JWTError
             (case jwt_decode tok SECRET_KEY [ALGORITHM] w of
                (Inl e, w1) \<Rightarrow> (Inl e, w1)
              | (Inr payload, w1) \<Rightarrow>
                  (case dict_getitem payload ''scope'' of
                     Inl e \<Rightarrow> (Inl e, w1)
                   | Inr scope \<Rightarrow>
                       if scope = JStr ''access_token'' then
                         (case dict_getitem payload ''sub'' of
                            Inl e \<Rightarrow> (Inl e, w1)
                          | Inr email \<Rightarrow>
                              if email = JNull then (Inl credentials_exception, w1)
                              else (Inr email, w1))
                       else (Inl credentials_exception, w1)))
             (\<lambda>msg w1. (Inl credentials_exception, w1)) of
        (Inl e, w2) \<Rightarrow> (Inl e, w2)
      | (Inr email, w2) \<Rightarrow>
          (case get_user_by_email email d of
             None \<Rightarrow> (Inl credentials_exception, w2)
           | Some u \<Rightarrow> (Inr u, w2)))"

definition get_email_from_token :: "token \<Rightarrow> world \<Rightarrow> (exn + jval) \<times> world" where
  "get_email_from_token tok w =
     except_JWTError
       (case jwt_decode tok SECRET_KEY [ALGORITHM] w of
          (Inl e, w1) \<Rightarrow> (Inl e, w1)
        | (Inr payload, w1) \<Rightarrow>
            (case dict_getitem payload ''sub'' of
               Inl e \<Rightarrow> (Inl e, w1)
             | Inr email \<Rightarrow> (Inr email, w1)))
       (\<lambda>msg w1.
          (Inl (HTTPException HTTP_422_UNPROCESSABLE_ENTITY
                  ''Invalid token for email verification'' None),
           w1\<lparr>stdout := stdout w1 @ [msg]\<rparr>))"

section \<open>Concrete inputs\<close>

text \<open>
  A world whose clock stands at 2023-11-14 22:13:20 UTC, with the caller's dictionary
  \<open>{"sub": "a@example.com"}\<close> at address 0 and an empty dictionary at address 1; the
  tokens the three issuers make of the first dictionary in that world; two user stores.
\<close>

definition world0 :: world where
  "world0 =
     \<lparr>clock = (\<lambda>k. 1700000000000000), reads = 0,
      heap = (\<lambda>a. if a = 0 then Some [(''sub'', JStr ''a@example.com'')]
                  else if a = 1 then Some [] else None),
      next_addr = 2, stdout = []\<rparr>"

text \<open>A world in which a second boundary passes between the first and the second clock reading.\<close>

definition world_tick :: world where
  "world_tick =
     \<lparr>clock = (\<lambda>k. if k = 0 then 1699999999999999 else 1700000000000001), reads = 0,
      heap = (\<lambda>a. if a = 0 then Some [(''sub'', JStr ''a@example.com'')] else None),
      next_addr = 1, stdout = []\<rparr>"

definition access_token0 :: token where
  "access_token0 =
     JWS SECRET_KEY ALGORITHM
       [(''sub'', JStr ''a@example.com''), (''iat'', JInt 1700000000),
        (''exp'', JInt 1700000900), (''scope'', JStr ''access_token'')]"

definition refresh_token0 :: token where
  "refresh_token0 =
     JWS SECRET_KEY ALGORITHM
       [(''sub'', JStr ''a@example.com''), (''iat'', JInt 1700000000),
        (''exp'', JInt 1700604800), (''scope'', JStr ''refresh_token'')]"

definition email_token0 :: token where
  "email_token0 =
     JWS SECRET_KEY ALGORITHM
       [(''sub'', JStr ''a@example.com''), (''iat'', JInt 1700000000),
        (''exp'', JInt 1700604800)]"

definition subjectless_token0 :: token where
  "subjectless_token0 =
     JWS SECRET_KEY ALGORITHM
       [(''iat'', JInt 1700000000), (''exp'', JInt 1700000900),
        (''scope'', JStr ''access_token'')]"

text \<open>
  What \<open>create_access_token\<close> makes of \<open>{"sub": None}\<close>, and two more worlds: one whose
  caller dictionary also carries an audience, one whose caller dictionary carries a scope.
\<close>

definition null_subject_token0 :: token where
  "null_subject_token0 =
     JWS SECRET_KEY ALGORITHM
       [(''sub'', JNull), (''iat'', JInt 1700000000), (''exp'', JInt 1700000900),
        (''scope'', JStr ''access_token'')]"

text \<open>What \<open>create_access_token\<close> makes of \<open>{"sub": "a@example.com", "nbf": None}\<close>.\<close>

definition null_nbf_token0 :: token where
  "null_nbf_token0 =
     JWS SECRET_KEY ALGORITHM
       [(''sub'', JStr ''a@example.com''), (''nbf'', JNull), (''iat'', JInt 1700000000),
        (''exp'', JInt 1700000900), (''scope'', JStr ''access_token'')]"


definition audience_token0 :: token where
  "audience_token0 =
     JWS SECRET_KEY ALGORITHM
       [(''sub'', JStr ''a@example.com''), (''aud'', JStr ''x''), (''iat'', JInt 1700000000),
        (''exp'', JInt 1700000900), (''scope'', JStr ''access_token'')]"

definition world_scoped :: world where
  "world_scoped =
     \<lparr>clock = (\<lambda>k. 1700000000000000), reads = 0,
      heap = (\<lambda>a. if a = 0 then Some [(''sub'', JStr ''a@example.com''),
                                      (''scope'', JStr ''access_token'')]
                  else None),
      next_addr = 1, stdout = []\<rparr>"

definition scoped_email_token0 :: token where
  "scoped_email_token0 =
     JWS SECRET_KEY ALGORITHM
       [(''sub'', JStr ''a@example.com''), (''scope'', JStr ''access_token''),
        (''iat'', JInt 1700000000), (''exp'', JInt 1700604800)]"

definition no_users :: db where
  "no_users = (\<lambda>email. None)"

definition one_user :: db where
  "one_user =
     (\<lambda>email. if email = JStr ''a@example.com'' then Some (User ''a@example.com'') else None)"

section \<open>The issuers on the concrete inputs\<close>

lemmas issuer_defs =
  dict_copy_def utcnow_def datetime_add_def timedelta_def datetime_min_def datetime_max_def
  dict_update_at_def dict_update_def jwt_encode_def convert_time_claim_def timegm_def
  is_datetime_def Let_def

lemma create_access_token_world0:
  "fst (create_access_token 0 None world0) = Inr access_token0"
  by (simp add: create_access_token_def world0_def access_token0_def issuer_defs)

lemma create_refresh_token_world0:
  "fst (create_refresh_token 0 None world0) = Inr refresh_token0"
  by (simp add: create_refresh_token_def world0_def refresh_token0_def issuer_defs)

lemma create_email_token_world0:
  "fst (create_email_token 0 world0) = Inr email_token0"
  by (simp add: create_email_token_def world0_def email_token0_def issuer_defs)

lemma create_access_token_no_sub_world0:
  "fst (create_access_token 1 None world0) = Inr subjectless_token0"
  by (simp add: create_access_token_def world0_def subjectless_token0_def issuer_defs)

section \<open>What the readers do with a decoded and with an undecodable token\<close>

text \<open>
  The decoder fails with a \<open>JWTError\<close> or, on a null time claim, with \<open>TypeError\<close>; the
  readers' \<open>except JWTError\<close> handles the first and lets the second pass.
\<close>

lemma py_int_error: "py_int v = Inl e \<Longrightarrow> e = ValueError \<or> e = TypeError"
  by (auto simp: py_int_def split: jval.splits option.splits)

lemma validate_iat_error:
  "validate_iat claims = Inl e \<Longrightarrow> (\<exists>msg. e = JWTError msg) \<or> e = TypeError"
  by (auto simp: validate_iat_def split: option.splits sum.splits exn.splits
      dest: py_int_error)

lemma validate_nbf_error:
  "validate_nbf claims w = (Inl e, w1) \<Longrightarrow> (\<exists>msg. e = JWTError msg) \<or> e = TypeError"
  by (auto simp: validate_nbf_def utcnow_def split: option.splits sum.splits exn.splits if_splits
      dest: py_int_error)

lemma validate_exp_error:
  "validate_exp claims w = (Inl e, w1) \<Longrightarrow> (\<exists>msg. e = JWTError msg) \<or> e = TypeError"
  by (auto simp: validate_exp_def utcnow_def split: option.splits sum.splits exn.splits if_splits
      dest: py_int_error)

lemma validate_aud_error: "validate_aud claims = Inl e \<Longrightarrow> \<exists>msg. e = JWTError msg"
  by (auto simp: validate_aud_def split: option.splits jval.splits)

lemma validate_sub_error: "validate_sub claims = Inl e \<Longrightarrow> \<exists>msg. e = JWTError msg"
  by (auto simp: validate_sub_def split: option.splits jval.splits)

lemma validate_jti_error: "validate_jti claims = Inl e \<Longrightarrow> \<exists>msg. e = JWTError msg"
  by (auto simp: validate_jti_def split: option.splits jval.splits)

lemma validate_at_hash_error: "validate_at_hash claims = Inl e \<Longrightarrow> \<exists>msg. e = JWTError msg"
  by (auto simp: validate_at_hash_def split: option.splits)

lemma validate_claims_error:
  assumes "validate_claims claims w = (Inl e, w1)"
  shows "(\<exists>msg. e = JWTError msg) \<or> e = TypeError"
  using assms
  by (auto simp: validate_claims_def split: sum.splits prod.splits
      dest: validate_iat_error validate_nbf_error validate_exp_error validate_aud_error
        validate_sub_error validate_jti_error validate_at_hash_error)

lemma jwt_decode_error:
  "jwt_decode tok key algs w = (Inl e, w1) \<Longrightarrow> (\<exists>msg. e = JWTError msg) \<or> e = TypeError"
  by (auto simp: jwt_decode_def split: token.splits if_splits sum.splits prod.splits
      dest: validate_claims_error)

lemma decoded_sub_is_string:
  assumes "jwt_decode tok key algs w = (Inr payload, w1)"
    and "map_of payload ''sub'' = Some v"
  shows "\<exists>s. v = JStr s"
proof -
  from assms(1) have "validate_sub payload = Inr ()"
    by (auto simp: jwt_decode_def validate_claims_def
        split: token.splits if_splits sum.splits prod.splits)
  with assms(2) show ?thesis
    by (auto simp: validate_sub_def split: jval.splits)
qed

lemma get_current_user_decoded:
  "jwt_decode tok SECRET_KEY [ALGORITHM] w = (Inr payload, w1) \<Longrightarrow>
   get_current_user tok d w =
     (case map_of payload ''scope'' of
        None \<Rightarrow> (Inl (KeyError ''scope''), w1)
      | Some scope \<Rightarrow>
          if scope = JStr ''access_token'' then
            (case map_of payload ''sub'' of
               None \<Rightarrow> (Inl (KeyError ''sub''), w1)
             | Some email \<Rightarrow>
                 if email = JNull then (Inl credentials_exception, w1)
                 else (case d email of
                         None \<Rightarrow> (Inl credentials_exception, w1)
                       | Some u \<Rightarrow> (Inr u, w1)))
          else (Inl credentials_exception, w1))"
  by (simp add: get_current_user_def except_JWTError_def dict_getitem_def get_user_by_email_def
      credentials_exception_def split: option.splits)

lemma get_current_user_undecoded:
  "jwt_decode tok SECRET_KEY [ALGORITHM] w = (Inl (JWTError msg), w1) \<Longrightarrow>
   get_current_user tok d w = (Inl credentials_exception, w1)"
  by (simp add: get_current_user_def except_JWTError_def)

lemma get_current_user_TypeError:
  "jwt_decode tok SECRET_KEY [ALGORITHM] w = (Inl TypeError, w1) \<Longrightarrow>
   get_current_user tok d w = (Inl TypeError, w1)"
  by (simp add: get_current_user_def except_JWTError_def)

lemma get_email_form_refresh_token_decoded:
  "jwt_decode tok SECRET_KEY [ALGORITHM] w = (Inr payload, w1) \<Longrightarrow>
   get_email_form_refresh_token tok w =
     (case map_of payload ''scope'' of
        None \<Rightarrow> (Inl (KeyError ''scope''), w1)
      | Some scope \<Rightarrow>
          if scope = JStr ''refresh_token'' then
            (case map_of payload ''sub'' of
               None \<Rightarrow> (Inl (KeyError ''sub''), w1)
             | Some email \<Rightarrow> (Inr email, w1))
          else (Inl (HTTPException 401 ''Invalid scope for token'' None), w1))"
  by (simp add: get_email_form_refresh_token_def except_JWTError_def dict_getitem_def
      HTTP_401_UNAUTHORIZED_def split: option.splits)

lemma get_email_form_refresh_token_undecoded:
  "jwt_decode tok SECRET_KEY [ALGORITHM] w = (Inl (JWTError msg), w1) \<Longrightarrow>
   get_email_form_refresh_token tok w =
     (Inl (HTTPException 401 ''Could not validate credentials'' None), w1)"
  by (simp add: get_email_form_refresh_token_def except_JWTError_def HTTP_401_UNAUTHORIZED_def)

lemma get_email_form_refresh_token_TypeError:
  "jwt_decode tok SECRET_KEY [ALGORITHM] w = (Inl TypeError, w1) \<Longrightarrow>
   get_email_form_refresh_token tok w = (Inl TypeError, w1)"
  by (simp add: get_email_form_refresh_token_def except_JWTError_def)

lemma get_email_from_token_decoded:
  "jwt_decode tok SECRET_KEY [ALGORITHM] w = (Inr payload, w1) \<Longrightarrow>
   get_email_from_token tok w =
     (case map_of payload ''sub'' of
        None \<Rightarrow> (Inl (KeyError ''sub''), w1)
      | Some email \<Rightarrow> (Inr email, w1))"
  by (simp add: get_email_from_token_def except_JWTError_def dict_getitem_def
      split: option.splits)

lemma get_email_from_token_undecoded:
  "jwt_decode tok SECRET_KEY [ALGORITHM] w = (Inl (JWTError msg), w1) \<Longrightarrow>
   get_email_from_token tok w =
     (Inl (HTTPException 422 ''Invalid token for email verification'' None),
      w1\<lparr>stdout := stdout w1 @ [msg]\<rparr>)"
  by (simp add: get_email_from_token_def except_JWTError_def HTTP_422_UNPROCESSABLE_ENTITY_def)

lemma get_email_from_token_TypeError:
  "jwt_decode tok SECRET_KEY [ALGORITHM] w = (Inl TypeError, w1) \<Longrightarrow>
   get_email_from_token tok w = (Inl TypeError, w1)"
  by (simp add: get_email_from_token_def except_JWTError_def)

text \<open>
  Decoding the concrete tokens in the concrete world: those of the three issuers are
  accepted, also the access token without subject; the one with an audience and the one
  with a null subject are refused.
\<close>

lemmas decode_defs =
  jwt_decode_def validate_claims_def validate_iat_def validate_nbf_def validate_exp_def
  validate_aud_def validate_sub_def validate_jti_def validate_at_hash_def py_int_def
  utcnow_def timegm_def SECRET_KEY_def ALGORITHM_def

lemma jwt_decode_access_token0:
  "jwt_decode access_token0 SECRET_KEY [ALGORITHM] world0 =
     (Inr (jws_claims access_token0), world0\<lparr>reads := Suc 0\<rparr>)"
  by (simp add: access_token0_def world0_def decode_defs)

lemma jwt_decode_refresh_token0:
  "jwt_decode refresh_token0 SECRET_KEY [ALGORITHM] world0 =
     (Inr (jws_claims refresh_token0), world0\<lparr>reads := Suc 0\<rparr>)"
  by (simp add: refresh_token0_def world0_def decode_defs)

lemma jwt_decode_email_token0:
  "jwt_decode email_token0 SECRET_KEY [ALGORITHM] world0 =
     (Inr (jws_claims email_token0), world0\<lparr>reads := Suc 0\<rparr>)"
  by (simp add: email_token0_def world0_def decode_defs)

lemma jwt_decode_subjectless_token0:
  "jwt_decode subjectless_token0 SECRET_KEY [ALGORITHM] world0 =
     (Inr (jws_claims subjectless_token0), world0\<lparr>reads := Suc 0\<rparr>)"
  by (simp add: subjectless_token0_def world0_def decode_defs)

lemma jwt_decode_audience_token0:
  "jwt_decode audience_token0 SECRET_KEY [ALGORITHM] world0 =
     (Inl (JWTError ''Invalid audience''), world0\<lparr>reads := Suc 0\<rparr>)"
  by (simp add: audience_token0_def world0_def decode_defs)

lemma jwt_decode_null_subject_token0:
  "jwt_decode null_subject_token0 SECRET_KEY [ALGORITHM] world0 =
     (Inl (JWTError ''Subject must be a string.''), world0\<lparr>reads := Suc 0\<rparr>)"
  by (simp add: null_subject_token0_def world0_def decode_defs)

lemma jwt_decode_null_nbf_token0:
  "jwt_decode null_nbf_token0 SECRET_KEY [ALGORITHM] world0 = (Inl TypeError, world0)"
  by (simp add: null_nbf_token0_def world0_def decode_defs)

lemma jwt_decode_Opaque:
  "jwt_decode (Opaque s) key algs w = (Inl (JWTError ''Not enough segments''), w)"
  by (simp add: jwt_decode_def)


section \<open>Claims about the readers\<close>



text \<open>
  Claim C8. An accepted access token (validly signed, unexpired, scope \<open>access_token\<close>)
  whose subject the user store does not know is rejected by \<open>get_current_user\<close> with
  the very exception value (status code 401, detail, headers) it raises for a token that
  the decoder refuses with a \<open>JWTError\<close> (bad signature, expired, a refused claim) and
  for a token of another scope: the caller cannot tell "no such user" from "invalid token".
\<close>

theorem C8_user_not_found_same_denial:
  assumes "jwt_decode tok SECRET_KEY [ALGORITHM] w = (Inr payload, w1)"
    and "map_of payload ''scope'' = Some (JStr ''access_token'')"
    and "map_of payload ''sub'' = Some email"
    and "get_user_by_email email d = None"
    and "(\<exists>msg w1'. jwt_decode tok' SECRET_KEY [ALGORITHM] w' = (Inl (JWTError msg), w1')) \<or>
         (\<exists>payload' w1' scope'. jwt_decode tok' SECRET_KEY [ALGORITHM] w' = (Inr payload', w1') \<and>
            map_of payload' ''scope'' = Some scope' \<and> scope' \<noteq> JStr ''access_token'')"
  shows "fst (get_current_user tok d w) = fst (get_current_user tok' d' w') \<and>
         fst (get_current_user tok d w) =
           Inl (HTTPException 401 ''Could not validate credentials''
                  (Some [(''WWW-Authenticate'', ''Bearer'')]))"
proof -
  have a: "fst (get_current_user tok d w) = Inl credentials_exception"
    using assms(1-4) by (simp add: get_current_user_decoded get_user_by_email_def)
  have b: "fst (get_current_user tok' d' w') = Inl credentials_exception"
    using assms(5)
    by (auto simp: get_current_user_decoded get_current_user_undecoded)
  show ?thesis
    using a b by (simp add: credentials_exception_def HTTP_401_UNAUTHORIZED_def)
qed

theorem C8_user_not_found_same_denial_witness:
  "fst (get_current_user access_token0 no_users world0) =
     fst (get_current_user (Opaque ''garbage'') one_user world0) \<and>
   fst (get_current_user access_token0 no_users world0) =
     fst (get_current_user refresh_token0 one_user world0) \<and>
   fst (get_current_user access_token0 no_users world0) =
     Inl (HTTPException 401 ''Could not validate credentials''
            (Some [(''WWW-Authenticate'', ''Bearer'')]))"
proof -
  have v: "map_of (jws_claims access_token0) ''scope'' = Some (JStr ''access_token'')"
    "map_of (jws_claims access_token0) ''sub'' = Some (JStr ''a@example.com'')"
    "get_user_by_email (JStr ''a@example.com'') no_users = None"
    by (simp_all add: access_token0_def get_user_by_email_def no_users_def)
  have g: "(\<exists>msg w1'. jwt_decode (Opaque ''garbage'') SECRET_KEY [ALGORITHM] world0 =
              (Inl (JWTError msg), w1')) \<or>
         (\<exists>payload' w1' scope'. jwt_decode (Opaque ''garbage'') SECRET_KEY [ALGORITHM] world0 = (Inr payload', w1') \<and>
            map_of payload' ''scope'' = Some scope' \<and> scope' \<noteq> JStr ''access_token'')"
    by (simp add: jwt_decode_Opaque)
  have r: "(\<exists>msg w1'. jwt_decode refresh_token0 SECRET_KEY [ALGORITHM] world0 =
              (Inl (JWTError msg), w1')) \<or>
         (\<exists>payload' w1' scope'. jwt_decode refresh_token0 SECRET_KEY [ALGORITHM] world0 = (Inr payload', w1') \<and>
            map_of payload' ''scope'' = Some scope' \<and> scope' \<noteq> JStr ''access_token'')"
    by (simp add: jwt_decode_refresh_token0) (simp add: refresh_token0_def)
  show ?thesis
    using C8_user_not_found_same_denial
        [where tok' = "Opaque ''garbage''" and d' = one_user and w' = world0,
         OF jwt_decode_access_token0 v g]
      C8_user_not_found_same_denial
        [where tok' = refresh_token0 and d' = one_user and w' = world0,
         OF jwt_decode_access_token0 v r]
    by (elim conjE) (simp only: simp_thms)
qed

text \<open>
  Claim C3. The claim asks for the 401 rejection when an accepted access token carries no
  usable \<open>sub\<close>. The code gives it for a \<open>sub\<close> that is null (\<open>null_sub_is_denied\<close>
  below: the decoder refuses a subject that is no string, so the test \<open>email is None\<close>
  is never reached with a null), but when the key is absent the lookup \<open>payload["sub"]\<close> raises \<open>KeyError\<close>,
  which the \<open>except JWTError\<close> clause does not handle: the call ends in
  \<open>KeyError 'sub'\<close>. The witness issues such a token with \<open>create_access_token\<close> from an
  empty dictionary.
\<close>

theorem C3_missing_sub_raises_KeyError:
  assumes "jwt_decode tok SECRET_KEY [ALGORITHM] w = (Inr payload, w1)"
    and "map_of payload ''scope'' = Some (JStr ''access_token'')"
    and "map_of payload ''sub'' = None"
  shows "get_current_user tok d w = (Inl (KeyError ''sub''), w1)"
  using assms by (simp add: get_current_user_decoded)

theorem C3_missing_sub_raises_KeyError_witness:
  "fst (create_access_token 1 None world0) = Inr subjectless_token0 \<and>
   get_current_user subjectless_token0 one_user world0 =
     (Inl (KeyError ''sub''), world0\<lparr>reads := Suc 0\<rparr>)"
  using C3_missing_sub_raises_KeyError [OF jwt_decode_subjectless_token0, of one_user]
    create_access_token_no_sub_world0
  by (simp add: subjectless_token0_def)

lemma null_sub_is_denied:
  "get_current_user null_subject_token0 one_user world0 =
     (Inl credentials_exception, world0\<lparr>reads := Suc 0\<rparr>)"
  by (rule get_current_user_undecoded [OF jwt_decode_null_subject_token0])

text \<open>
  A null time claim makes the decoder raise \<open>TypeError\<close>, which is no \<open>JWTError\<close>: the
  reader's \<open>except\<close> clause lets it pass.
\<close>

lemma null_time_claim_escapes_as_TypeError:
  "get_current_user null_nbf_token0 one_user world0 = (Inl TypeError, world0)"
  by (rule get_current_user_TypeError [OF jwt_decode_null_nbf_token0])




text \<open>
  Claim C7 says every rejection of a validation operation is a 401. \<open>get_email_from_token\<close>
  answers a token that does not decode with status 422.
\<close>

theorem C7_email_path_counterexample:
  "fst (get_email_from_token (Opaque ''garbage'') world0) =
     Inl (HTTPException 422 ''Invalid token for email verification'' None) \<and>
   status_code (HTTPException 422 ''Invalid token for email verification'' None) \<noteq> 401"
  by (simp add: get_email_from_token_undecoded [OF jwt_decode_Opaque])

text \<open>
  Claim C7, amended. Every \<open>HTTPException\<close> raised by \<open>get_current_user\<close> is
  401 "Could not validate credentials" with the \<open>WWW-Authenticate: Bearer\<close> header (invalid
  token, wrong scope, null subject, user not found); every one raised by
  \<open>get_email_form_refresh_token\<close> is 401 with detail "Invalid scope for token" or
  "Could not validate credentials"; every one raised by \<open>get_email_from_token\<close> is
  422 "Invalid token for email verification". Whatever message the library's \<open>JWTError\<close>
  carries, the exception raised for it is one of these fixed values: the library's own
  error detail is not in the response. (An exception of the decoder that is no
  \<open>JWTError\<close>, the \<open>TypeError\<close> of a null time claim, is no \<open>HTTPException\<close>; like
  the \<open>KeyError\<close> of claims C3 and C10 the statement leaves it out.)
\<close>

theorem C7_rejections_have_fixed_status_and_detail:
  shows "(fst (get_current_user tok d w) = Inl (HTTPException sc dt h) \<longrightarrow>
            sc = 401 \<and> dt = ''Could not validate credentials'' \<and>
            h = Some [(''WWW-Authenticate'', ''Bearer'')]) \<and>
         (fst (get_email_form_refresh_token tok w) = Inl (HTTPException sc dt h) \<longrightarrow>
            sc = 401 \<and> (dt = ''Invalid scope for token'' \<or> dt = ''Could not validate credentials'') \<and>
            h = None) \<and>
         (fst (get_email_from_token tok w) = Inl (HTTPException sc dt h) \<longrightarrow>
            sc = 422 \<and> dt = ''Invalid token for email verification'' \<and> h = None) \<and>
         (fst (jwt_decode tok SECRET_KEY [ALGORITHM] w) = Inl (JWTError msg) \<longrightarrow>
            fst (get_current_user tok d w) = Inl credentials_exception \<and>
            fst (get_email_form_refresh_token tok w) =
              Inl (HTTPException 401 ''Could not validate credentials'' None) \<and>
            fst (get_email_from_token tok w) =
              Inl (HTTPException 422 ''Invalid token for email verification'' None))"
proof -
  obtain r w1 where dec: "jwt_decode tok SECRET_KEY [ALGORITHM] w = (r, w1)"
    by (cases "jwt_decode tok SECRET_KEY [ALGORITHM] w")
  show ?thesis
  proof (cases r)
    case (Inl e)
    with dec have u: "jwt_decode tok SECRET_KEY [ALGORITHM] w = (Inl e, w1)" by simp
    from jwt_decode_error [OF u] consider m where "e = JWTError m" | "e = TypeError"
      by blast
    then show ?thesis
    proof cases
      case 1
      with u have j: "jwt_decode tok SECRET_KEY [ALGORITHM] w = (Inl (JWTError m), w1)"
        by simp
      show ?thesis
        by (simp add: get_current_user_undecoded [OF j]
            get_email_form_refresh_token_undecoded [OF j] get_email_from_token_undecoded [OF j]
            credentials_exception_def HTTP_401_UNAUTHORIZED_def)
    next
      case 2
      with u have t: "jwt_decode tok SECRET_KEY [ALGORITHM] w = (Inl TypeError, w1)"
        by simp
      show ?thesis
        by (simp add: t get_current_user_TypeError [OF t]
            get_email_form_refresh_token_TypeError [OF t] get_email_from_token_TypeError [OF t])
    qed
  next
    case (Inr payload)
    with dec have v: "jwt_decode tok SECRET_KEY [ALGORITHM] w = (Inr payload, w1)" by simp
    show ?thesis
      by (simp add: v get_current_user_decoded [OF v] get_email_form_refresh_token_decoded [OF v]
          get_email_from_token_decoded [OF v] credentials_exception_def HTTP_401_UNAUTHORIZED_def
          split: option.splits)
  qed
qed

theorem C7_rejections_have_fixed_status_and_detail_witness:
  "fst (get_current_user (Opaque ''garbage'') one_user world0) =
     Inl (HTTPException 401 ''Could not validate credentials''
            (Some [(''WWW-Authenticate'', ''Bearer'')])) \<and>
   fst (get_email_form_refresh_token (Opaque ''garbage'') world0) =
     Inl (HTTPException 401 ''Could not validate credentials'' None) \<and>
   fst (get_email_form_refresh_token access_token0 world0) =
     Inl (HTTPException 401 ''Invalid scope for token'' None) \<and>
   fst (get_email_from_token (Opaque ''garbage'') world0) =
     Inl (HTTPException 422 ''Invalid token for email verification'' None)"
proof -
  have g: "fst (jwt_decode (Opaque ''garbage'') SECRET_KEY [ALGORITHM] world0) =
          Inl (JWTError ''Not enough segments'')"
    by (simp add: jwt_decode_Opaque)
  have a: "fst (get_email_form_refresh_token access_token0 world0) =
     Inl (HTTPException 401 ''Invalid scope for token'' None)"
    by (simp add: get_email_form_refresh_token_decoded [OF jwt_decode_access_token0])
       (simp add: access_token0_def)
  note t = C7_rejections_have_fixed_status_and_detail
  have 4: "fst (get_current_user (Opaque ''garbage'') one_user world0) = Inl credentials_exception \<and>
            fst (get_email_form_refresh_token (Opaque ''garbage'') world0) =
              Inl (HTTPException 401 ''Could not validate credentials'' None) \<and>
            fst (get_email_from_token (Opaque ''garbage'') world0) =
              Inl (HTTPException 422 ''Invalid token for email verification'' None)"
    using t [of "Opaque ''garbage''" one_user world0 401 "''x''" None "''Not enough segments''",
             THEN conjunct2, THEN conjunct2, THEN conjunct2, rule_format, OF g] .
  have 2: "(401::nat) = 401 \<and>
      (''Invalid scope for token'' = ''Invalid scope for token'' \<or>
       ''Invalid scope for token'' = ''Could not validate credentials'') \<and>
      (None :: (string \<times> string) list option) = None"
    using t [of access_token0 one_user world0 401 "''Invalid scope for token''" None "''x''",
             THEN conjunct2, THEN conjunct1, rule_format, OF a] .
  from 4 a 2 show ?thesis
    by (simp add: credentials_exception_def HTTP_401_UNAUTHORIZED_def)
qed

section \<open>What the issuers produce\<close>

lemma map_of_convert_time_claim:
  "map_of (convert_time_claim k c) k' =
     (if k' = k then (case map_of c k of Some (JDatetime t) \<Rightarrow> Some (JInt (timegm t)) | x \<Rightarrow> x)
      else map_of c k')"
  by (auto simp: convert_time_claim_def update_conv' split: option.splits jval.splits)

lemma timegm_add_seconds: "timegm (t + s * 1000000) = timegm t + s"
  by (simp add: timegm_def)

lemma timegm_add_15_minutes: "timegm (t + 900000000) = timegm t + 900"
  using timegm_add_seconds [of t 900] by simp

lemma timegm_add_7_days: "timegm (t + 604800000000) = timegm t + 604800"
  using timegm_add_seconds [of t 604800] by simp

lemma create_access_token_Inr:
  assumes "create_access_token data expires_delta w = (Inr tok, w')"
  shows "\<exists>d body. heap w data = Some d \<and> tok = JWS SECRET_KEY ALGORITHM body \<and>
           map_of body ''exp'' =
             Some (JInt (timegm (clock w (reads w)) +
                     (case expires_delta of Some s \<Rightarrow> if s \<noteq> 0 then s else 900 | None \<Rightarrow> 900))) \<and>
           map_of body ''iat'' = Some (JInt (timegm (clock w (Suc (reads w))))) \<and>
           map_of body ''scope'' = Some (JStr ''access_token'') \<and>
           (\<forall>k. k \<notin> {''exp'', ''iat'', ''nbf'', ''scope''} \<longrightarrow> map_of body k = map_of d k)"
  using assms
  by (auto simp: create_access_token_def dict_copy_def utcnow_def datetime_add_def timedelta_def
      dict_update_at_def dict_update_def jwt_encode_def Let_def map_of_convert_time_claim
      update_conv' timegm_add_seconds timegm_add_15_minutes
      split: option.splits if_splits)

lemma create_refresh_token_Inr:
  assumes "create_refresh_token data expires_delta w = (Inr tok, w')"
  shows "\<exists>d body. heap w data = Some d \<and> tok = JWS SECRET_KEY ALGORITHM body \<and>
           map_of body ''exp'' =
             Some (JInt (timegm (clock w (reads w)) +
                     (case expires_delta of Some s \<Rightarrow> if s \<noteq> 0 then s else 604800 | None \<Rightarrow> 604800))) \<and>
           map_of body ''iat'' = Some (JInt (timegm (clock w (Suc (reads w))))) \<and>
           map_of body ''scope'' = Some (JStr ''refresh_token'') \<and>
           (\<forall>k. k \<notin> {''exp'', ''iat'', ''nbf'', ''scope''} \<longrightarrow> map_of body k = map_of d k)"
  using assms
  by (auto simp: create_refresh_token_def dict_copy_def utcnow_def datetime_add_def timedelta_def
      dict_update_at_def dict_update_def jwt_encode_def Let_def map_of_convert_time_claim
      update_conv' timegm_add_seconds timegm_add_7_days
      split: option.splits if_splits)

lemma create_email_token_Inr:
  assumes "create_email_token data w = (Inr tok, w')"
  shows "\<exists>d body. heap w data = Some d \<and> tok = JWS SECRET_KEY ALGORITHM body \<and>
           map_of body ''exp'' = Some (JInt (timegm (clock w (reads w)) + 604800)) \<and>
           map_of body ''iat'' = Some (JInt (timegm (clock w (Suc (reads w))))) \<and>
           (\<forall>k. k \<notin> {''exp'', ''iat'', ''nbf''} \<longrightarrow> map_of body k = map_of d k)"
  using assms
  by (auto simp: create_email_token_def dict_copy_def utcnow_def datetime_add_def timedelta_def
      dict_update_at_def dict_update_def jwt_encode_def Let_def map_of_convert_time_claim
      update_conv' timegm_add_7_days
      split: option.splits if_splits)

lemma issuers_frame:
  assumes "a \<noteq> next_addr w"
  shows "heap (snd (create_access_token data expires_delta w)) a = heap w a"
    and "heap (snd (create_refresh_token data expires_delta w)) a = heap w a"
    and "heap (snd (create_email_token data w)) a = heap w a"
  using assms
  by (auto simp: create_access_token_def create_refresh_token_def create_email_token_def
      dict_copy_def utcnow_def datetime_add_def
      dict_update_at_def jwt_encode_def Let_def
      split: option.splits if_splits)

section \<open>Claims about the issuers\<close>

text \<open>
  Claim C9. Each of the three issuers works on a copy: whatever the call returns (a token
  or an exception), the dictionary object the caller passed, allocated before the call,
  holds afterwards exactly the items it held before; no \<open>iat\<close>, \<open>exp\<close> or \<open>scope\<close> entry
  is added to it and none of its entries is changed.
\<close>

theorem C9_issuers_leave_caller_dict_unchanged:
  assumes "data < next_addr w"
  shows "heap (snd (create_access_token data expires_delta w)) data = heap w data \<and>
         heap (snd (create_refresh_token data expires_delta w)) data = heap w data \<and>
         heap (snd (create_email_token data w)) data = heap w data"
  using assms issuers_frame [of data w] by simp

theorem C9_issuers_leave_caller_dict_unchanged_witness:
  "heap (snd (create_access_token 0 None world0)) 0 = Some [(''sub'', JStr ''a@example.com'')] \<and>
   heap (snd (create_refresh_token 0 (Some 60) world0)) 0 = Some [(''sub'', JStr ''a@example.com'')] \<and>
   heap (snd (create_email_token 0 world0)) 0 = Some [(''sub'', JStr ''a@example.com'')] \<and>
   fst (create_access_token 0 None world0) = Inr access_token0"
  using C9_issuers_leave_caller_dict_unchanged [of 0 world0 None]
    C9_issuers_leave_caller_dict_unchanged [of 0 world0 "Some 60"]
    create_access_token_world0
  by (simp add: world0_def)

text \<open>
  Claim C4 says \<open>exp > iat\<close> for every \<open>expires_delta\<close>. A negative \<open>expires_delta\<close> is
  truthy, so it is added to the clock as it is: with \<open>expires_delta = -5\<close> the token's
  \<open>exp\<close> lies five seconds before its \<open>iat\<close>.
\<close>

theorem C4_negative_lifetime_counterexample:
  "fst (create_access_token 0 (Some (- 5)) world0) =
     Inr (JWS SECRET_KEY ALGORITHM
           [(''sub'', JStr ''a@example.com''), (''iat'', JInt 1700000000),
            (''exp'', JInt 1699999995), (''scope'', JStr ''access_token'')]) \<and>
   \<not> (1699999995 :: int) > 1700000000"
  by (simp add: create_access_token_def world0_def issuer_defs)

text \<open>
  \<open>exp\<close> and \<open>iat\<close> come from two readings of the clock, so a positive lifetime alone does
  not give \<open>exp > iat\<close>: with a lifetime of one second and a second boundary between the
  readings, \<open>exp = iat\<close>.
\<close>

lemma exp_equals_iat_when_a_second_passes:
  "fst (create_access_token 0 (Some 1) world_tick) =
     Inr (JWS SECRET_KEY ALGORITHM
           [(''sub'', JStr ''a@example.com''), (''iat'', JInt 1700000000),
            (''exp'', JInt 1700000000), (''scope'', JStr ''access_token'')])"
  by (simp add: create_access_token_def world_tick_def issuer_defs)

lemma create_access_token_tick_default:
  "fst (create_access_token 0 None world_tick) =
     Inr (JWS SECRET_KEY ALGORITHM
           [(''sub'', JStr ''a@example.com''), (''iat'', JInt 1700000000),
            (''exp'', JInt 1700000899), (''scope'', JStr ''access_token'')])"
  by (simp add: create_access_token_def world_tick_def issuer_defs)

text \<open>
  Claim C4, amended. For every token produced by any of the three issuers, with lifetime
  \<open>l\<close> (the caller's \<open>expires_delta\<close>, in whole seconds, when it is given and not zero,
  otherwise the default of the kind: 900 seconds for access, 604800 seconds for refresh
  and for email verification), the encoded claims satisfy \<open>exp > iat\<close> exactly when the
  second clock reading (for \<open>iat\<close>) falls, in whole seconds, less than \<open>l\<close> seconds after
  the first (for \<open>exp\<close>). So \<open>exp > iat\<close> holds for every positive lifetime when fewer
  than that many seconds pass between the two readings, and fails for every lifetime that
  is negative when the clock does not run backwards.
\<close>

theorem C4_exp_after_iat:
  assumes issued:
    "create_access_token data expires_delta w = (Inr tok, w') \<and>
       l = (case expires_delta of Some s \<Rightarrow> if s \<noteq> 0 then s else 900 | None \<Rightarrow> 900) \<or>
     create_refresh_token data expires_delta w = (Inr tok, w') \<and>
       l = (case expires_delta of Some s \<Rightarrow> if s \<noteq> 0 then s else 604800 | None \<Rightarrow> 604800) \<or>
     create_email_token data w = (Inr tok, w') \<and> l = 604800"
  shows "\<exists>body e i. tok = JWS SECRET_KEY ALGORITHM body \<and>
           map_of body ''exp'' = Some (JInt e) \<and> map_of body ''iat'' = Some (JInt i) \<and>
           (e > i \<longleftrightarrow> timegm (clock w (Suc (reads w))) < timegm (clock w (reads w)) + l)"
proof -
  have "\<exists>body. tok = JWS SECRET_KEY ALGORITHM body \<and>
          map_of body ''exp'' = Some (JInt (timegm (clock w (reads w)) + l)) \<and>
          map_of body ''iat'' = Some (JInt (timegm (clock w (Suc (reads w)))))"
    using issued
  proof (elim disjE conjE)
    assume "create_access_token data expires_delta w = (Inr tok, w')"
      and l: "l = (case expires_delta of Some s \<Rightarrow> if s \<noteq> 0 then s else 900 | None \<Rightarrow> 900)"
    from create_access_token_Inr [OF this(1)]
    obtain d body where "tok = JWS SECRET_KEY ALGORITHM body"
      "map_of body ''exp'' = Some (JInt (timegm (clock w (reads w)) +
         (case expires_delta of Some s \<Rightarrow> if s \<noteq> 0 then s else 900 | None \<Rightarrow> 900)))"
      "map_of body ''iat'' = Some (JInt (timegm (clock w (Suc (reads w)))))"
      by (elim exE conjE)
    then show ?thesis
      by (intro exI [of _ body]) (simp add: l)
  next
    assume "create_refresh_token data expires_delta w = (Inr tok, w')"
      and l: "l = (case expires_delta of Some s \<Rightarrow> if s \<noteq> 0 then s else 604800
                   | None \<Rightarrow> 604800)"
    from create_refresh_token_Inr [OF this(1)]
    obtain d body where "tok = JWS SECRET_KEY ALGORITHM body"
      "map_of body ''exp'' = Some (JInt (timegm (clock w (reads w)) +
         (case expires_delta of Some s \<Rightarrow> if s \<noteq> 0 then s else 604800 | None \<Rightarrow> 604800)))"
      "map_of body ''iat'' = Some (JInt (timegm (clock w (Suc (reads w)))))"
      by (elim exE conjE)
    then show ?thesis
      by (intro exI [of _ body]) (simp add: l)
  next
    assume "create_email_token data w = (Inr tok, w')" and l: "l = 604800"
    from create_email_token_Inr [OF this(1)]
    obtain d body where "tok = JWS SECRET_KEY ALGORITHM body"
      "map_of body ''exp'' = Some (JInt (timegm (clock w (reads w)) + 604800))"
      "map_of body ''iat'' = Some (JInt (timegm (clock w (Suc (reads w)))))"
      by (elim exE conjE)
    then show ?thesis
      by (intro exI [of _ body]) (simp add: l)
  qed
  then obtain body where b: "tok = JWS SECRET_KEY ALGORITHM body"
    "map_of body ''exp'' = Some (JInt (timegm (clock w (reads w)) + l))"
    "map_of body ''iat'' = Some (JInt (timegm (clock w (Suc (reads w)))))"
    by (elim exE conjE)
  then show ?thesis
    by (intro exI [of _ body] exI [of _ "timegm (clock w (reads w)) + l"]
          exI [of _ "timegm (clock w (Suc (reads w)))"]) simp
qed

theorem C4_exp_after_iat_witness:
  "(\<exists>body e i. access_token0 = JWS SECRET_KEY ALGORITHM body \<and>
      map_of body ''exp'' = Some (JInt e) \<and> map_of body ''iat'' = Some (JInt i) \<and> e > i) \<and>
   (\<exists>tok body e i. fst (create_access_token 0 None world_tick) = Inr tok \<and>
      tok = JWS SECRET_KEY ALGORITHM body \<and>
      map_of body ''exp'' = Some (JInt e) \<and> map_of body ''iat'' = Some (JInt i) \<and> e > i)"
proof -
  have a: "create_access_token 0 None world0 =
             (Inr access_token0, snd (create_access_token 0 None world0)) \<and>
           (900::int) = (case (None :: int option) of Some s \<Rightarrow> if s \<noteq> 0 then s else 900
                         | None \<Rightarrow> 900)"
    using create_access_token_world0 by (simp add: prod_eq_iff)
  have still: "timegm (clock world0 (Suc (reads world0))) < timegm (clock world0 (reads world0)) + 900"
    by (simp add: world0_def timegm_def)
  let ?tok = "JWS SECRET_KEY ALGORITHM
           [(''sub'', JStr ''a@example.com''), (''iat'', JInt 1700000000),
            (''exp'', JInt 1700000899), (''scope'', JStr ''access_token'')]"
  have b: "create_access_token 0 None world_tick =
             (Inr ?tok, snd (create_access_token 0 None world_tick)) \<and>
           (900::int) = (case (None :: int option) of Some s \<Rightarrow> if s \<noteq> 0 then s else 900
                         | None \<Rightarrow> 900)"
    using create_access_token_tick_default by (simp add: prod_eq_iff)
  have tick: "timegm (clock world_tick (Suc (reads world_tick))) <
                timegm (clock world_tick (reads world_tick)) + 900"
    by (simp add: world_tick_def timegm_def)
  from C4_exp_after_iat [OF disjI1 [OF a]] still
  have 1: "\<exists>body e i. access_token0 = JWS SECRET_KEY ALGORITHM body \<and>
      map_of body ''exp'' = Some (JInt e) \<and> map_of body ''iat'' = Some (JInt i) \<and> e > i"
    by simp
  from C4_exp_after_iat [OF disjI1 [OF b]] tick
  have "\<exists>body e i. ?tok = JWS SECRET_KEY ALGORITHM body \<and>
      map_of body ''exp'' = Some (JInt e) \<and> map_of body ''iat'' = Some (JInt i) \<and> e > i"
    by simp
  with create_access_token_tick_default
  have 2: "\<exists>tok body e i. fst (create_access_token 0 None world_tick) = Inr tok \<and>
      tok = JWS SECRET_KEY ALGORITHM body \<and>
      map_of body ''exp'' = Some (JInt e) \<and> map_of body ''iat'' = Some (JInt i) \<and> e > i"
    by (intro exI [of _ ?tok]) simp
  from 1 2 show ?thesis by (rule conjI)
qed

text \<open>
  Claim C5 says the override is the lifetime whenever it is provided. The issuers test
  \<open>if expires_delta:\<close>, so an override of \<open>0\<close> is provided and not used: the token gets
  the default lifetime, \<open>exp = iat + 900\<close>, not \<open>iat + 0\<close>.
\<close>

theorem C5_zero_override_counterexample:
  "fst (create_access_token 0 (Some 0) world0) =
     Inr (JWS SECRET_KEY ALGORITHM
           [(''sub'', JStr ''a@example.com''), (''iat'', JInt 1700000000),
            (''exp'', JInt 1700000900), (''scope'', JStr ''access_token'')]) \<and>
   (1700000900 :: int) \<noteq> 1700000000 + 0"
  by (simp add: create_access_token_def world0_def issuer_defs)

text \<open>
  \<open>exp\<close> and \<open>iat\<close> come from two readings of the clock. When a second boundary passes
  between them the encoded lifetime is one second short of the one asked for.
\<close>

lemma lifetime_shortened_when_a_second_passes:
  "fst (create_access_token 0 (Some 900) world_tick) =
     Inr (JWS SECRET_KEY ALGORITHM
           [(''sub'', JStr ''a@example.com''), (''iat'', JInt 1700000000),
            (''exp'', JInt 1700000899), (''scope'', JStr ''access_token'')])"
  by (simp add: create_access_token_def world_tick_def issuer_defs)

text \<open>
  Claim C5, amended. For every token an issuer produces, when its two clock readings fall
  in the same second, the encoded claims have \<open>exp = iat + lifetime\<close>, where the lifetime
  is the caller's \<open>expires_delta\<close> (whole seconds) when it is given and not zero, and
  otherwise the default of the kind: 900 seconds (15 minutes) for access, 604800 seconds
  (7 days) for refresh and for email verification, which takes no override. Access tokens
  carry scope \<open>access_token\<close>, refresh tokens \<open>refresh_token\<close>; in particular an access
  token issued with lifetime 900 has \<open>exp - iat = 900\<close> and scope \<open>access_token\<close>.
\<close>

theorem C5_exp_is_iat_plus_lifetime:
  assumes same: "timegm (clock w (Suc (reads w))) = timegm (clock w (reads w))"
  shows "(create_access_token data expires_delta w = (Inr tok, w') \<longrightarrow>
           (\<exists>body e i. tok = JWS SECRET_KEY ALGORITHM body \<and>
              map_of body ''exp'' = Some (JInt e) \<and> map_of body ''iat'' = Some (JInt i) \<and>
              map_of body ''scope'' = Some (JStr ''access_token'') \<and>
              e = i + (case expires_delta of Some s \<Rightarrow> if s \<noteq> 0 then s else 900 | None \<Rightarrow> 900))) \<and>
         (create_refresh_token data expires_delta w = (Inr tok, w') \<longrightarrow>
           (\<exists>body e i. tok = JWS SECRET_KEY ALGORITHM body \<and>
              map_of body ''exp'' = Some (JInt e) \<and> map_of body ''iat'' = Some (JInt i) \<and>
              map_of body ''scope'' = Some (JStr ''refresh_token'') \<and>
              e = i + (case expires_delta of Some s \<Rightarrow> if s \<noteq> 0 then s else 604800
                       | None \<Rightarrow> 604800))) \<and>
         (create_email_token data w = (Inr tok, w') \<longrightarrow>
           (\<exists>body e i. tok = JWS SECRET_KEY ALGORITHM body \<and>
              map_of body ''exp'' = Some (JInt e) \<and> map_of body ''iat'' = Some (JInt i) \<and>
              e = i + 604800))"
proof (intro conjI impI)
  assume "create_access_token data expires_delta w = (Inr tok, w')"
  from create_access_token_Inr [OF this]
  obtain d body where "tok = JWS SECRET_KEY ALGORITHM body"
    "map_of body ''exp'' = Some (JInt (timegm (clock w (reads w)) +
       (case expires_delta of Some s \<Rightarrow> if s \<noteq> 0 then s else 900 | None \<Rightarrow> 900)))"
    "map_of body ''iat'' = Some (JInt (timegm (clock w (Suc (reads w)))))"
    "map_of body ''scope'' = Some (JStr ''access_token'')"
    by (elim exE conjE)
  with same show "\<exists>body e i. tok = JWS SECRET_KEY ALGORITHM body \<and>
              map_of body ''exp'' = Some (JInt e) \<and> map_of body ''iat'' = Some (JInt i) \<and>
              map_of body ''scope'' = Some (JStr ''access_token'') \<and>
              e = i + (case expires_delta of Some s \<Rightarrow> if s \<noteq> 0 then s else 900 | None \<Rightarrow> 900)"
    by (intro exI [of _ body]) simp
next
  assume "create_refresh_token data expires_delta w = (Inr tok, w')"
  from create_refresh_token_Inr [OF this]
  obtain d body where "tok = JWS SECRET_KEY ALGORITHM body"
    "map_of body ''exp'' = Some (JInt (timegm (clock w (reads w)) +
       (case expires_delta of Some s \<Rightarrow> if s \<noteq> 0 then s else 604800 | None \<Rightarrow> 604800)))"
    "map_of body ''iat'' = Some (JInt (timegm (clock w (Suc (reads w)))))"
    "map_of body ''scope'' = Some (JStr ''refresh_token'')"
    by (elim exE conjE)
  with same show "\<exists>body e i. tok = JWS SECRET_KEY ALGORITHM body \<and>
              map_of body ''exp'' = Some (JInt e) \<and> map_of body ''iat'' = Some (JInt i) \<and>
              map_of body ''scope'' = Some (JStr ''refresh_token'') \<and>
              e = i + (case expires_delta of Some s \<Rightarrow> if s \<noteq> 0 then s else 604800
                       | None \<Rightarrow> 604800)"
    by (intro exI [of _ body]) simp
next
  assume "create_email_token data w = (Inr tok, w')"
  from create_email_token_Inr [OF this]
  obtain d body where "tok = JWS SECRET_KEY ALGORITHM body"
    "map_of body ''exp'' = Some (JInt (timegm (clock w (reads w)) + 604800))"
    "map_of body ''iat'' = Some (JInt (timegm (clock w (Suc (reads w)))))"
    by (elim exE conjE)
  with same show "\<exists>body e i. tok = JWS SECRET_KEY ALGORITHM body \<and>
              map_of body ''exp'' = Some (JInt e) \<and> map_of body ''iat'' = Some (JInt i) \<and>
              e = i + 604800"
    by (intro exI [of _ body]) simp
qed

lemma create_access_token_900_world0:
  "fst (create_access_token 0 (Some 900) world0) = Inr access_token0"
  by (simp add: create_access_token_def world0_def access_token0_def issuer_defs)

theorem C5_exp_is_iat_plus_lifetime_witness:
  "(\<exists>body e i. access_token0 = JWS SECRET_KEY ALGORITHM body \<and>
      map_of body ''exp'' = Some (JInt e) \<and> map_of body ''iat'' = Some (JInt i) \<and>
      map_of body ''scope'' = Some (JStr ''access_token'') \<and> e = i + 900) \<and>
   (\<exists>body e i. refresh_token0 = JWS SECRET_KEY ALGORITHM body \<and>
      map_of body ''exp'' = Some (JInt e) \<and> map_of body ''iat'' = Some (JInt i) \<and>
      map_of body ''scope'' = Some (JStr ''refresh_token'') \<and> e = i + 604800) \<and>
   (\<exists>body e i. email_token0 = JWS SECRET_KEY ALGORITHM body \<and>
      map_of body ''exp'' = Some (JInt e) \<and> map_of body ''iat'' = Some (JInt i) \<and>
      e = i + 604800)"
proof -
  have s: "timegm (clock world0 (Suc (reads world0))) = timegm (clock world0 (reads world0))"
    by (simp add: world0_def)
  have a: "create_access_token 0 (Some 900) world0 =
             (Inr access_token0, snd (create_access_token 0 (Some 900) world0))"
    using create_access_token_900_world0 by (simp add: prod_eq_iff)
  have r: "create_refresh_token 0 None world0 =
             (Inr refresh_token0, snd (create_refresh_token 0 None world0))"
    using create_refresh_token_world0 by (simp add: prod_eq_iff)
  have e: "create_email_token 0 world0 = (Inr email_token0, snd (create_email_token 0 world0))"
    using create_email_token_world0 by (simp add: prod_eq_iff)
  show ?thesis
    using C5_exp_is_iat_plus_lifetime [OF s, of 0 "Some 900" access_token0
            "snd (create_access_token 0 (Some 900) world0)", THEN conjunct1]
      C5_exp_is_iat_plus_lifetime [OF s, of 0 None refresh_token0
            "snd (create_refresh_token 0 None world0)", THEN conjunct2, THEN conjunct1]
      C5_exp_is_iat_plus_lifetime [OF s, of 0 None email_token0
            "snd (create_email_token 0 world0)", THEN conjunct2, THEN conjunct2]
      a r e
    by simp
qed

text \<open>
  Claim C6 says e-mail verification tokens carry no \<open>scope\<close> claim. \<open>create_email_token\<close>
  adds none, but it copies the caller's claims as they are: made from
  \<open>{"sub": "a@example.com", "scope": "access_token"}\<close> the token carries that scope.
\<close>

theorem C6_caller_scope_counterexample:
  "fst (create_email_token 0 world_scoped) = Inr scoped_email_token0 \<and>
   map_of (jws_claims scoped_email_token0) ''scope'' = Some (JStr ''access_token'')"
  by (simp add: create_email_token_def world_scoped_def scoped_email_token0_def issuer_defs)

text \<open>
  Claim C6, amended. \<open>create_email_token\<close> adds no \<open>scope\<close> claim: the token has a
  \<open>scope\<close> entry exactly when the caller's own dictionary had one (and then that one), so
  a token made from claims without \<open>scope\<close> carries none. \<open>get_email_from_token\<close> checks
  no scope: for every token the decoder accepts, of whatever kind, whose claims contain
  \<open>sub\<close>, it returns that \<open>sub\<close>.
\<close>

theorem C6_email_token_has_no_scope_and_is_read_without_scope_check:
  shows "(create_email_token data w = (Inr tok, w') \<and> heap w data = Some d \<longrightarrow>
           (\<exists>body. tok = JWS SECRET_KEY ALGORITHM body \<and>
              map_of body ''scope'' = map_of d ''scope'')) \<and>
         (jwt_decode tok2 SECRET_KEY [ALGORITHM] w2 = (Inr payload, w2') \<and>
            map_of payload ''sub'' = Some v \<longrightarrow>
           get_email_from_token tok2 w2 = (Inr v, w2'))"
proof (intro conjI impI)
  assume h: "create_email_token data w = (Inr tok, w') \<and> heap w data = Some d"
  then have h1: "create_email_token data w = (Inr tok, w')" and h2: "heap w data = Some d"
    by simp_all
  from create_email_token_Inr [OF h1]
  obtain d' body where b: "heap w data = Some d'" "tok = JWS SECRET_KEY ALGORITHM body"
    "\<forall>k. k \<notin> {''exp'', ''iat'', ''nbf''} \<longrightarrow> map_of body k = map_of d' k"
    by (elim exE conjE)
  from b(3) have "map_of body ''scope'' = map_of d' ''scope''" by simp
  with b(1,2) h2 show "\<exists>body. tok = JWS SECRET_KEY ALGORITHM body \<and>
              map_of body ''scope'' = map_of d ''scope''"
    by simp
next
  assume "jwt_decode tok2 SECRET_KEY [ALGORITHM] w2 = (Inr payload, w2') \<and>
            map_of payload ''sub'' = Some v"
  then show "get_email_from_token tok2 w2 = (Inr v, w2')"
    by (simp add: get_email_from_token_decoded)
qed

theorem C6_email_token_has_no_scope_and_is_read_without_scope_check_witness:
  "(\<exists>body. email_token0 = JWS SECRET_KEY ALGORITHM body \<and> map_of body ''scope'' = None) \<and>
   get_email_from_token email_token0 world0 =
     (Inr (JStr ''a@example.com''), world0\<lparr>reads := Suc 0\<rparr>) \<and>
   get_email_from_token access_token0 world0 =
     (Inr (JStr ''a@example.com''), world0\<lparr>reads := Suc 0\<rparr>) \<and>
   get_email_from_token refresh_token0 world0 =
     (Inr (JStr ''a@example.com''), world0\<lparr>reads := Suc 0\<rparr>)"
proof -
  have e: "create_email_token 0 world0 = (Inr email_token0, snd (create_email_token 0 world0)) \<and>
           heap world0 0 = Some [(''sub'', JStr ''a@example.com'')]"
    using create_email_token_world0 by (simp add: prod_eq_iff world0_def)
  have 1: "jwt_decode email_token0 SECRET_KEY [ALGORITHM] world0 =
             (Inr (jws_claims email_token0), world0\<lparr>reads := Suc 0\<rparr>) \<and>
           map_of (jws_claims email_token0) ''sub'' = Some (JStr ''a@example.com'')"
    by (simp add: jwt_decode_email_token0) (simp add: email_token0_def)
  have 2: "jwt_decode access_token0 SECRET_KEY [ALGORITHM] world0 =
             (Inr (jws_claims access_token0), world0\<lparr>reads := Suc 0\<rparr>) \<and>
           map_of (jws_claims access_token0) ''sub'' = Some (JStr ''a@example.com'')"
    by (simp add: jwt_decode_access_token0) (simp add: access_token0_def)
  have 3: "jwt_decode refresh_token0 SECRET_KEY [ALGORITHM] world0 =
             (Inr (jws_claims refresh_token0), world0\<lparr>reads := Suc 0\<rparr>) \<and>
           map_of (jws_claims refresh_token0) ''sub'' = Some (JStr ''a@example.com'')"
    by (simp add: jwt_decode_refresh_token0) (simp add: refresh_token0_def)
  note t = C6_email_token_has_no_scope_and_is_read_without_scope_check
  show ?thesis
    using t [THEN conjunct1, rule_format, OF e]
      t [THEN conjunct2, rule_format, OF 1]
      t [THEN conjunct2, rule_format, OF 2]
      t [THEN conjunct2, rule_format, OF 3]
    by simp
qed

section \<open>Issuing, then validating\<close>












text \<open>
  A negative lifetime gives a token that is expired when it is issued: the round trip
  needs a lifetime that is not negative.
\<close>

lemma negative_lifetime_token_is_expired:
  "fst (get_current_user
          (JWS SECRET_KEY ALGORITHM
             [(''sub'', JStr ''a@example.com''), (''iat'', JInt 1700000000),
              (''exp'', JInt 1699999995), (''scope'', JStr ''access_token'')])
          one_user world0) = Inl credentials_exception"
proof -
  have "jwt_decode
          (JWS SECRET_KEY ALGORITHM
             [(''sub'', JStr ''a@example.com''), (''iat'', JInt 1700000000),
              (''exp'', JInt 1699999995), (''scope'', JStr ''access_token'')])
          SECRET_KEY [ALGORITHM] world0 =
        (Inl (JWTError ''Signature has expired.''), world0\<lparr>reads := Suc 0\<rparr>)"
    by (simp add: world0_def decode_defs)
  from get_current_user_undecoded [OF this] show ?thesis by simp
qed



end
